theory Spec2Isabelle
  imports Complex_Main
begin

section \<open>The STDP network simulator of SNN2\_AER/python/stdp\_network.py\<close>

text \<open>
  Python floats are read as real numbers, \<open>np.exp\<close> as \<^const>\<open>exp\<close>. The pseudo-random
  draws of numpy are arguments of the functions that consume them. Every raise of the
  source is an \<open>Inl\<close> result; the partly updated objects that an exception leaves behind
  are not part of a result.
\<close>

subsection \<open>Errors, indexing, loops\<close>

datatype py_error =
  ZeroDivisionError
  | IndexError
  | KeyError nat
  | ValueError string

definition andthen :: "py_error + 'a \<Rightarrow> ('a \<Rightarrow> py_error + 'b) \<Rightarrow> py_error + 'b" where
  "andthen r f = (case r of Inl e \<Rightarrow> Inl e | Inr x \<Rightarrow> f x)"

text \<open>\<open>xs[i]\<close> for an index that is never negative.\<close>

definition py_get :: "'a list \<Rightarrow> nat \<Rightarrow> py_error + 'a" where
  "py_get xs i = (if i < length xs then Inr (xs ! i) else Inl IndexError)"

text \<open>A \<open>for\<close> loop over a fixed sequence; a raise in the body leaves the loop.\<close>

fun for_each :: "'i list \<Rightarrow> ('i \<Rightarrow> 's \<Rightarrow> py_error + 's) \<Rightarrow> 's \<Rightarrow> py_error + 's" where
  "for_each [] body s = Inr s"
| "for_each (i # is) body s =
     (case body i s of Inl e \<Rightarrow> Inl e | Inr s' \<Rightarrow> for_each is body s')"

text \<open>
  A method that mutates the object \<open>xs[k]\<close> in place: the list holds the mutated object
  afterwards.
\<close>

definition modify_at :: "'a list \<Rightarrow> nat \<Rightarrow> ('a \<Rightarrow> py_error + 'a) \<Rightarrow> py_error + 'a list" where
  "modify_at xs k f = andthen (py_get xs k) (\<lambda>x. andthen (f x) (\<lambda>x'. Inr (xs[k := x'])))"

text \<open>\<open>np.clip(x, lo, hi)\<close> is \<open>minimum(maximum(x, lo), hi)\<close>.\<close>

definition clip :: "real \<Rightarrow> real \<Rightarrow> real \<Rightarrow> real" where
  "clip x lo hi = min (max x lo) hi"

text \<open>\<open>int(x)\<close> of a float truncates towards zero.\<close>

definition py_int :: "real \<Rightarrow> int" where
  "py_int x = (if 0 \<le> x then \<lfloor>x\<rfloor> else \<lceil>x\<rceil>)"

subsection \<open>LIF\_Neuron\<close>

text \<open>\<open>last_spike_time\<close> is \<open>None\<close> for the initial \<open>-np.inf\<close>.\<close>

record lif_neuron =
  neuron_id :: nat
  threshold :: real
  tau_m :: real
  tau_s :: real
  v_rest :: real
  v_reset :: real
  v :: real
  i_syn :: real
  spike_times :: "real list"
  last_spike_time :: "real option"
  v_history :: "real list"
  spike_history :: "nat list"

definition LIF_Neuron :: "nat \<Rightarrow> real \<Rightarrow> real \<Rightarrow> real \<Rightarrow> real \<Rightarrow> real \<Rightarrow> lif_neuron" where
  "LIF_Neuron nid thr tm ts vrest vreset =
     \<lparr> neuron_id = nid, threshold = thr, tau_m = tm, tau_s = ts,
       v_rest = vrest, v_reset = vreset,
       v = vrest, i_syn = 0, spike_times = [], last_spike_time = None,
       v_history = [], spike_history = [] \<rparr>"


text \<open>
  \<open>LIF_Neuron.step\<close>. The two float divisions raise on a zero time constant; the first
  one is reached after \<open>i_syn += input_current\<close>.
\<close>

definition step :: "real \<Rightarrow> real \<Rightarrow> lif_neuron \<Rightarrow> py_error + (bool \<times> lif_neuron)" where
  "step dt' input_current n =
     (let n1 = n\<lparr> i_syn := i_syn n + input_current \<rparr> in
      if tau_s n1 = 0 then Inl ZeroDivisionError
      else
        let n2 = n1\<lparr> i_syn := i_syn n1 * exp (- dt' / tau_s n1) \<rparr> in
        if tau_m n2 = 0 then Inl ZeroDivisionError
        else
          let dv = (- (v n2 - v_rest n2) + i_syn n2) / tau_m n2;
              n3 = n2\<lparr> v := v n2 + dv * dt' \<rparr>
          in
            if threshold n3 \<le> v n3 then
              let now = real (length (v_history n3)) * dt';
                  n4 = n3\<lparr> v := v_reset n3,
                           spike_times := spike_times n3 @ [now],
                           last_spike_time := Some now \<rparr>
              in Inr (True, n4\<lparr> v_history := v_history n4 @ [v n4],
                                spike_history := spike_history n4 @ [1] \<rparr>)
            else
              Inr (False, n3\<lparr> v_history := v_history n3 @ [v n3],
                               spike_history := spike_history n3 @ [0] \<rparr>))"

subsection \<open>STDP\_Synapse\<close>

record synapse =
  pre_id :: nat
  post_id :: nat
  w :: real
  w_min :: real
  w_max :: real
  A_plus :: real
  A_minus :: real
  tau_plus :: real
  tau_minus :: real
  w_history :: "real list"
  pre_trace :: real
  post_trace :: real

definition STDP_Synapse ::
  "nat \<Rightarrow> nat \<Rightarrow> real \<Rightarrow> real \<Rightarrow> real \<Rightarrow> real \<Rightarrow> real \<Rightarrow> real \<Rightarrow> real \<Rightarrow> synapse" where
  "STDP_Synapse pre post w_init wmin wmax ap am tp tm =
     \<lparr> pre_id = pre, post_id = post, w = w_init, w_min = wmin, w_max = wmax,
       A_plus = ap, A_minus = am, tau_plus = tp, tau_minus = tm,
       w_history = [w_init], pre_trace = 0, post_trace = 0 \<rparr>"

definition update_traces :: "real \<Rightarrow> bool \<Rightarrow> bool \<Rightarrow> synapse \<Rightarrow> py_error + synapse" where
  "update_traces dt' pre_spike post_spike s =
     (if tau_plus s = 0 then Inl ZeroDivisionError
      else
        let s1 = s\<lparr> pre_trace := pre_trace s * exp (- dt' / tau_plus s) \<rparr> in
        if tau_minus s1 = 0 then Inl ZeroDivisionError
        else
          let s2 = s1\<lparr> post_trace := post_trace s1 * exp (- dt' / tau_minus s1) \<rparr>;
              s3 = (if pre_spike then
                      (let a = s2\<lparr> pre_trace := pre_trace s2 + A_plus s2 \<rparr> in
                       if 0 < post_trace a then a\<lparr> w := w a - post_trace a \<rparr> else a)
                    else s2);
              s4 = (if post_spike then
                      (let b = s3\<lparr> post_trace := post_trace s3 + A_minus s3 \<rparr> in
                       if 0 < pre_trace b then b\<lparr> w := w b + pre_trace b \<rparr> else b)
                    else s3)
          in Inr (s4\<lparr> w := clip (w s4) (w_min s4) (w_max s4) \<rparr>))"


subsection \<open>STDP\_Network\<close>

record network =
  n_input :: nat
  n_hidden :: nat
  n_output :: nat
  dt :: real
  stdp_enabled :: bool
  input_neurons :: "lif_neuron list"
  hidden_neurons :: "lif_neuron list"
  output_neurons :: "lif_neuron list"
  synapses_ih :: "synapse list"
  synapses_ho :: "synapse list"

text \<open>
  \<open>STDP_Network.__init__\<close>: \<open>w_ih i h\<close> and \<open>w_ho h o\<close> are the initial weights of the
  synapses, drawn by \<open>np.random.uniform\<close> in the source. The neurons and synapses take
  the default arguments of their constructors where the source passes none.
\<close>

definition init_network ::
  "nat \<Rightarrow> nat \<Rightarrow> nat \<Rightarrow> real \<Rightarrow> bool \<Rightarrow> (nat \<Rightarrow> nat \<Rightarrow> real) \<Rightarrow> (nat \<Rightarrow> nat \<Rightarrow> real) \<Rightarrow> network" where
  "init_network ni nh no dt' enabled w_ih w_ho =
     \<lparr> n_input = ni, n_hidden = nh, n_output = no, dt = dt', stdp_enabled = enabled,
       input_neurons = map (\<lambda>i. LIF_Neuron i 0.8 20 5 0 0) [0..<ni],
       hidden_neurons = map (\<lambda>i. LIF_Neuron i 0.9 20 5 0 0) [0..<nh],
       output_neurons = map (\<lambda>i. LIF_Neuron i 0.8 20 5 0 0) [0..<no],
       synapses_ih =
         concat (map (\<lambda>i. map (\<lambda>h. STDP_Synapse i h (w_ih i h) 0 1 0.015 0.015 20 20) [0..<nh])
                     [0..<ni]),
       synapses_ho =
         concat (map (\<lambda>h. map (\<lambda>o'. STDP_Synapse h o' (w_ho h o') 0 1 0.02 0.02 20 20) [0..<no])
                     [0..<nh]) \<rparr>"


text \<open>
  \<open>encode_spike_train\<close>: \<open>rnd i k\<close> is the \<open>k\<close>-th number that \<open>np.random.random(n_steps)\<close>
  returns for input neuron \<open>i\<close>. A negative \<open>n_steps\<close> makes that call raise.
\<close>

definition encode_spike_train ::
  "network \<Rightarrow> real list \<Rightarrow> real \<Rightarrow> real \<Rightarrow> real \<Rightarrow> (nat \<Rightarrow> nat \<Rightarrow> real)
     \<Rightarrow> py_error + (nat \<rightharpoonup> bool list)" where
  "encode_spike_train net pattern duration spike_rate_on spike_rate_off rnd =
     (if dt net = 0 then Inl ZeroDivisionError
      else
        let n_steps = py_int (duration / dt net) in
        if pattern \<noteq> [] \<and> n_steps < 0
        then Inl (ValueError ''negative dimensions are not allowed'')
        else
          Inr (\<lambda>i. if i < length pattern then
                      (let rate = (if 0.5 < pattern ! i then spike_rate_on else spike_rate_off);
                           p_spike = rate * dt net / 1000.0
                       in Some (map (\<lambda>k. rnd i k < p_spike) [0..<nat n_steps]))
                    else None))"

text \<open>\<open>[input_spikes[i][step] for i in range(self.n_input)]\<close>\<close>

definition read_input_flags :: "(nat \<rightharpoonup> bool list) \<Rightarrow> nat \<Rightarrow> nat \<Rightarrow> py_error + bool list" where
  "read_input_flags input_spikes ni step_no =
     for_each [0..<ni]
       (\<lambda>i flags. case input_spikes i of
            None \<Rightarrow> Inl (KeyError i)
          | Some train \<Rightarrow> andthen (py_get train step_no) (\<lambda>b. Inr (flags @ [b])))
       []"

text \<open>The inner loop of the hidden layer: the current that the input spikes send to \<open>h_idx\<close>.\<close>

definition hidden_current :: "network \<Rightarrow> bool list \<Rightarrow> nat \<Rightarrow> py_error + real" where
  "hidden_current net input_spike_flags h_idx =
     for_each [0..<n_input net]
       (\<lambda>i_idx i_input.
          andthen (py_get input_spike_flags i_idx) (\<lambda>flag.
            if flag then
              andthen (py_get (synapses_ih net) (i_idx * n_hidden net + h_idx)) (\<lambda>synapse.
                Inr (i_input + w synapse))
            else Inr i_input))
       0"

text \<open>
  The loop that both layers run over their neurons: neuron \<open>idx\<close> is stepped with the
  current \<open>current idx\<close>, its flag is appended, and a spike is recorded at time \<open>t\<close>. The
  state of the loop is the list of neurons, the flags so far and the spike record.
\<close>

definition advance_layer ::
  "real \<Rightarrow> (nat \<Rightarrow> py_error + real) \<Rightarrow> real \<Rightarrow> lif_neuron list \<Rightarrow> real list list
     \<Rightarrow> py_error + (lif_neuron list \<times> bool list \<times> real list list)" where
  "advance_layer dt' current t neurons0 spikes0 =
     for_each [0..<length neurons0]
       (\<lambda>idx (neurons, spike_flags, spikes).
          andthen (current idx) (\<lambda>i_input.
          andthen (step dt' i_input (neurons ! idx)) (\<lambda>(spiked, neuron).
            if spiked then
              andthen (py_get spikes idx) (\<lambda>times.
                Inr (neurons[idx := neuron], spike_flags @ [spiked],
                     spikes[idx := times @ [t]]))
            else
              Inr (neurons[idx := neuron], spike_flags @ [spiked], spikes))))
       (neurons0, [], spikes0)"

definition hidden_layer ::
  "network \<Rightarrow> bool list \<Rightarrow> real \<Rightarrow> real list list
     \<Rightarrow> py_error + (lif_neuron list \<times> bool list \<times> real list list)" where
  "hidden_layer net input_spike_flags t hidden_spikes =
     advance_layer (dt net) (hidden_current net input_spike_flags) t
       (hidden_neurons net) hidden_spikes"

text \<open>First pass of the output layer: the raw current of every output neuron.\<close>

definition raw_current :: "network \<Rightarrow> bool list \<Rightarrow> nat \<Rightarrow> py_error + real" where
  "raw_current net hidden_spike_flags o_idx =
     for_each [0..<n_hidden net]
       (\<lambda>h_idx i_input.
          andthen (py_get hidden_spike_flags h_idx) (\<lambda>flag.
            if flag then
              andthen (py_get (synapses_ho net) (h_idx * n_output net + o_idx)) (\<lambda>synapse.
                Inr (i_input + w synapse))
            else Inr i_input))
       0"

definition raw_currents :: "network \<Rightarrow> bool list \<Rightarrow> py_error + real list" where
  "raw_currents net hidden_spike_flags =
     for_each [0..<n_output net]
       (\<lambda>o_idx output_currents.
          andthen (raw_current net hidden_spike_flags o_idx) (\<lambda>i_input.
            Inr (output_currents @ [i_input])))
       []"

text \<open>
  Second pass: the current that neuron \<open>o_idx\<close> is stepped with, after lateral inhibition
  and the teaching signal.
\<close>

definition net_current :: "network \<Rightarrow> int option \<Rightarrow> real list \<Rightarrow> nat \<Rightarrow> py_error + real" where
  "net_current net label output_currents o_idx =
     andthen (py_get output_currents o_idx) (\<lambda>i_input0.
     andthen
       (for_each [0..<n_output net]
          (\<lambda>other_idx i_input.
             if other_idx \<noteq> o_idx then
               andthen (py_get output_currents other_idx) (\<lambda>c.
                 if 0 < c then Inr (i_input - 0.1 * c) else Inr i_input)
             else Inr i_input)
          i_input0)
       (\<lambda>i_input.
          if label \<noteq> None \<and> stdp_enabled net then
            (if Some (int o_idx) = label then Inr (i_input + 0.5) else Inr (i_input - 0.4))
          else Inr i_input))"

definition output_layer ::
  "network \<Rightarrow> int option \<Rightarrow> real list \<Rightarrow> real \<Rightarrow> real list list
     \<Rightarrow> py_error + (lif_neuron list \<times> bool list \<times> real list list)" where
  "output_layer net label output_currents t output_spikes =
     advance_layer (dt net) (net_current net label output_currents) t
       (output_neurons net) output_spikes"

text \<open>The plasticity of the input to hidden synapses (unsupervised).\<close>

definition plasticity_ih :: "network \<Rightarrow> bool list \<Rightarrow> bool list \<Rightarrow> py_error + synapse list" where
  "plasticity_ih net input_spike_flags hidden_spike_flags =
     for_each [0..<n_input net]
       (\<lambda>i_idx. for_each [0..<n_hidden net]
          (\<lambda>h_idx synapses.
             modify_at synapses (i_idx * n_hidden net + h_idx) (\<lambda>synapse.
               andthen (py_get input_spike_flags i_idx) (\<lambda>pre_spike.
               andthen (py_get hidden_spike_flags h_idx) (\<lambda>post_spike.
                 update_traces (dt net) pre_spike post_spike synapse)))))
       (synapses_ih net)"

text \<open>
  The body of the hidden to output plasticity loop for one synapse: the supervised
  branches, the unsupervised branch, then the final clip.
\<close>

definition update_ho_synapse ::
  "real \<Rightarrow> int option \<Rightarrow> bool list \<Rightarrow> bool list \<Rightarrow> nat \<Rightarrow> nat \<Rightarrow> synapse \<Rightarrow> py_error + synapse" where
  "update_ho_synapse dt' label hidden_spike_flags output_spike_flags h_idx o_idx synapse =
     andthen
       (case label of
          Some l \<Rightarrow>
            if int o_idx = l then
              andthen (py_get hidden_spike_flags h_idx) (\<lambda>pre_spike.
              andthen (py_get output_spike_flags o_idx) (\<lambda>post_spike.
              andthen (update_traces dt' pre_spike post_spike synapse) (\<lambda>s1.
                let s2 = (if pre_spike then s1\<lparr> w := w s1 + 0.01 \<rparr> else s1);
                    s3 = (if post_spike then s2\<lparr> w := w s2 + 0.005 \<rparr> else s2)
                in Inr s3)))
            else
              andthen (py_get hidden_spike_flags h_idx) (\<lambda>pre_spike.
                let s1 = (if pre_spike then synapse\<lparr> w := w synapse - 0.015 \<rparr> else synapse) in
                andthen (py_get output_spike_flags o_idx) (\<lambda>post_spike.
                  Inr (if post_spike then s1\<lparr> w := w s1 - 0.02 \<rparr> else s1)))
        | None \<Rightarrow>
            andthen (py_get hidden_spike_flags h_idx) (\<lambda>pre_spike.
            andthen (py_get output_spike_flags o_idx) (\<lambda>post_spike.
              update_traces dt' pre_spike post_spike synapse)))
       (\<lambda>s'. Inr (s'\<lparr> w := clip (w s') (w_min s') (w_max s') \<rparr>))"

definition plasticity_ho ::
  "network \<Rightarrow> int option \<Rightarrow> bool list \<Rightarrow> bool list \<Rightarrow> py_error + synapse list" where
  "plasticity_ho net label hidden_spike_flags output_spike_flags =
     for_each [0..<n_hidden net]
       (\<lambda>h_idx. for_each [0..<n_output net]
          (\<lambda>o_idx synapses.
             modify_at synapses (h_idx * n_output net + o_idx)
               (update_ho_synapse (dt net) label hidden_spike_flags output_spike_flags
                  h_idx o_idx)))
       (synapses_ho net)"

text \<open>
  One iteration of the simulation loop of \<open>simulate_pattern\<close>, on the network and the two
  spike records.
\<close>

definition sim_step ::
  "(nat \<rightharpoonup> bool list) \<Rightarrow> int option \<Rightarrow> nat \<Rightarrow> network \<times> real list list \<times> real list list
     \<Rightarrow> py_error + (network \<times> real list list \<times> real list list)" where
  "sim_step input_spikes label step_no st =
     (case st of (net, hidden_spikes, output_spikes) \<Rightarrow>
        let t = real step_no * dt net in
        andthen (read_input_flags input_spikes (n_input net) step_no) (\<lambda>input_spike_flags.
        andthen (hidden_layer net input_spike_flags t hidden_spikes)
          (\<lambda>(hidden', hidden_spike_flags, hidden_spikes').
        let net1 = net\<lparr> hidden_neurons := hidden' \<rparr> in
        andthen (raw_currents net1 hidden_spike_flags) (\<lambda>output_currents.
        andthen (output_layer net1 label output_currents t output_spikes)
          (\<lambda>(output', output_spike_flags, output_spikes').
        let net2 = net1\<lparr> output_neurons := output' \<rparr> in
        if stdp_enabled net2 then
          andthen (plasticity_ih net2 input_spike_flags hidden_spike_flags) (\<lambda>ih'.
          let net3 = net2\<lparr> synapses_ih := ih' \<rparr> in
          andthen (plasticity_ho net3 label hidden_spike_flags output_spike_flags) (\<lambda>ho'.
            Inr (net3\<lparr> synapses_ho := ho' \<rparr>, hidden_spikes', output_spikes')))
        else Inr (net2, hidden_spikes', output_spikes'))))))"

text \<open>
  \<open>simulate_pattern\<close> with the default spike rates of its call of \<open>encode_spike_train\<close>.
  The result is the network after the call and the pair that the source returns.
\<close>

definition simulate_pattern ::
  "network \<Rightarrow> real list \<Rightarrow> real \<Rightarrow> int option \<Rightarrow> (nat \<Rightarrow> nat \<Rightarrow> real)
     \<Rightarrow> py_error + (network \<times> real list list \<times> real list list)" where
  "simulate_pattern net pattern duration label rnd =
     (if dt net = 0 then Inl ZeroDivisionError
      else
        let n_steps = py_int (duration / dt net) in
        andthen (encode_spike_train net pattern duration 100.0 5.0 rnd) (\<lambda>input_spikes.
          for_each [0..<nat n_steps] (sim_step input_spikes label)
            (net, replicate (n_hidden net) [], replicate (n_output net) [])))"

subsection \<open>Readout and accessors\<close>

text \<open>
  \<open>np.argmax\<close> of a one-dimensional sequence: the index of the first occurrence of the
  maximum; it raises on an empty sequence.
\<close>

fun argmax_scan :: "nat list \<Rightarrow> nat \<Rightarrow> nat \<Rightarrow> nat \<Rightarrow> nat" where
  "argmax_scan [] i best best_val = best"
| "argmax_scan (x # xs) i best best_val =
     (if best_val < x then argmax_scan xs (Suc i) i x
      else argmax_scan xs (Suc i) best best_val)"

definition argmax :: "nat list \<Rightarrow> py_error + nat" where
  "argmax xs =
     (case xs of
        [] \<Rightarrow> Inl (ValueError ''attempt to get argmax of an empty sequence'')
      | x # rest \<Rightarrow> Inr (argmax_scan rest 1 0 x))"

definition get_winner :: "real list list \<Rightarrow> py_error + nat" where
  "get_winner output_spikes =
     (let spike_counts = map length output_spikes in argmax spike_counts)"

text \<open>
  \<open>get_weights_matrix\<close>: the matrix is a list of rows, created by \<open>np.zeros\<close> and filled
  entry by entry.
\<close>

definition fill_matrix ::
  "nat \<Rightarrow> nat \<Rightarrow> synapse list \<Rightarrow> py_error + real list list" where
  "fill_matrix rows cols synapses =
     for_each [0..<rows]
       (\<lambda>i. for_each [0..<cols]
          (\<lambda>j W.
             andthen (py_get synapses (i * cols + j)) (\<lambda>synapse.
               Inr (W[i := (W ! i)[j := w synapse]]))))
       (replicate rows (replicate cols 0))"

definition get_weights_matrix :: "network \<Rightarrow> string \<Rightarrow> py_error + real list list" where
  "get_weights_matrix net layer =
     (if layer = ''input_hidden'' then
        fill_matrix (n_input net) (n_hidden net) (synapses_ih net)
      else if layer = ''hidden_output'' then
        fill_matrix (n_hidden net) (n_output net) (synapses_ho net)
      else Inl (ValueError (''Unknown layer: '' @ layer)))"

subsection \<open>Well-formed networks\<close>

text \<open>
  What the constructor establishes and the simulation relies on: the lists have the sizes
  that the index arithmetic of the loops assumes, and no time constant is zero.
\<close>

definition wf_net :: "network \<Rightarrow> bool" where
  "wf_net net \<longleftrightarrow>
     length (hidden_neurons net) = n_hidden net
     \<and> length (output_neurons net) = n_output net
     \<and> length (synapses_ih net) = n_input net * n_hidden net
     \<and> length (synapses_ho net) = n_hidden net * n_output net
     \<and> list_all (\<lambda>n. tau_s n \<noteq> 0 \<and> tau_m n \<noteq> 0) (hidden_neurons net @ output_neurons net)
     \<and> list_all (\<lambda>s. tau_plus s \<noteq> 0 \<and> tau_minus s \<noteq> 0) (synapses_ih net @ synapses_ho net)"

subsection \<open>The specification's wording of two phases\<close>

text \<open>
  The net current of output neuron \<open>o_idx\<close> as the specification words it: the raw current,
  minus 0.1 times every other positive raw current, plus 0.5 for the labelled neuron and
  minus 0.4 for the others whenever a label is supplied.
\<close>

definition net_current_spec :: "nat \<Rightarrow> int option \<Rightarrow> real list \<Rightarrow> nat \<Rightarrow> real" where
  "net_current_spec n_out label output_currents o_idx =
     output_currents ! o_idx
     - 0.1 * (\<Sum>j<n_out. if j \<noteq> o_idx \<and> 0 < output_currents ! j then output_currents ! j else 0)
     + (case label of None \<Rightarrow> 0 | Some l \<Rightarrow> if int o_idx = l then 0.5 else - 0.4)"

text \<open>
  The hidden to output plasticity of one synapse as the specification words it:
  \<open>update_traces\<close> in every case, then the reward or punishment when a label is supplied,
  then the clip.
\<close>

definition update_ho_synapse_spec ::
  "real \<Rightarrow> int option \<Rightarrow> bool \<Rightarrow> bool \<Rightarrow> nat \<Rightarrow> synapse \<Rightarrow> py_error + synapse" where
  "update_ho_synapse_spec dt' label pre_spike post_spike o_idx synapse =
     andthen (update_traces dt' pre_spike post_spike synapse) (\<lambda>s1.
       let s2 = (case label of
                   None \<Rightarrow> s1
                 | Some l \<Rightarrow>
                     if int o_idx = l then
                       s1\<lparr> w := w s1 + (if pre_spike then 0.01 else 0)
                                        + (if post_spike then 0.005 else 0) \<rparr>
                     else
                       s1\<lparr> w := w s1 - (if pre_spike then 0.015 else 0)
                                        - (if post_spike then 0.02 else 0) \<rparr>)
       in Inr (s2\<lparr> w := clip (w s2) (w_min s2) (w_max s2) \<rparr>))"

text \<open>
  What the source does for one hidden to output synapse, by cases on the label: the
  incorrect outputs of a labelled presentation get no \<open>update_traces\<close> call.
\<close>

definition ho_rule ::
  "real \<Rightarrow> int option \<Rightarrow> bool \<Rightarrow> bool \<Rightarrow> nat \<Rightarrow> synapse \<Rightarrow> py_error + synapse" where
  "ho_rule dt' label pre_spike post_spike o_idx synapse =
     andthen
       (case label of
          None \<Rightarrow> update_traces dt' pre_spike post_spike synapse
        | Some l \<Rightarrow>
            if int o_idx = l then
              andthen (update_traces dt' pre_spike post_spike synapse) (\<lambda>s1.
                Inr (s1\<lparr> w := w s1 + (if pre_spike then 0.01 else 0)
                                      + (if post_spike then 0.005 else 0) \<rparr>))
            else
              Inr (synapse\<lparr> w := w synapse - (if pre_spike then 0.015 else 0)
                                            - (if post_spike then 0.02 else 0) \<rparr>))
       (\<lambda>s'. Inr (s'\<lparr> w := clip (w s') (w_min s') (w_max s') \<rparr>))"

subsection \<open>Auxiliary notions for the end-to-end scenario\<close>

definition no_spikes :: "real list list \<Rightarrow> bool" where
  "no_spikes record \<longleftrightarrow> list_all (\<lambda>times. times = []) record"

text \<open>Input spike trains of \<open>n\<close> steps each, for the first \<open>ni\<close> neurons, without a spike.\<close>

definition silent_inputs :: "(nat \<rightharpoonup> bool list) \<Rightarrow> nat \<Rightarrow> nat \<Rightarrow> bool" where
  "silent_inputs input_spikes ni n \<longleftrightarrow>
     list_all (\<lambda>i. case input_spikes i of
                     None \<Rightarrow> False
                   | Some train \<Rightarrow> length train = n \<and> list_all (\<lambda>b. \<not> b) train) [0..<ni]"

text \<open>
  Lower bounds for the synaptic current and the potential of a neuron that starts at rest
  and receives the current 0.5 in every step, with \<open>dt = 1\<close>, \<open>tau_s = 5\<close>, \<open>tau_m = 20\<close>,
  as long as it has not fired: they use \<open>exp (- 1 / 5) \<ge> 4 / 5\<close>.
\<close>

fun isyn_lb :: "nat \<Rightarrow> real" where
  "isyn_lb 0 = 0"
| "isyn_lb (Suc k) = (isyn_lb k + 1 / 2) * (4 / 5)"

fun v_lb :: "nat \<Rightarrow> real" where
  "v_lb 0 = 0"
| "v_lb (Suc k) = v_lb k * (19 / 20) + isyn_lb (Suc k) / 20"

section \<open>Properties\<close>

subsection \<open>Loops and the error monad\<close>

lemma for_each_append:
  "for_each (xs @ ys) body s = andthen (for_each xs body s) (for_each ys body)"
  by (induction xs arbitrary: s) (auto simp: andthen_def split: sum.splits)

lemma for_each_upt_rule:
  assumes "I 0 s"
    and "\<And>i s. i < n \<Longrightarrow> I i s \<Longrightarrow> \<exists>s'. body i s = Inr s' \<and> I (Suc i) s'"
  shows "\<exists>s'. for_each [0..<n] body s = Inr s' \<and> I n s'"
  using assms(2)
proof (induction n)
  case 0
  with assms(1) show ?case by simp
next
  case (Suc n)
  from Suc.IH Suc.prems obtain s1 where s1: "for_each [0..<n] body s = Inr s1" "I n s1"
    by (metis less_Suc_eq)
  from Suc.prems [of n s1] s1 obtain s2 where "body n s1 = Inr s2" "I (Suc n) s2" by auto
  with s1 show ?case by (simp add: for_each_append andthen_def)
qed

subsection \<open>Synapse weights stay within their bounds\<close>










subsection \<open>The neuron update rule\<close>

text \<open>
  C5. A call \<open>step(dt, input_current)\<close> of a neuron with non-zero time constants computes
  \<open>i' = (i_syn + input_current) * exp(-dt / tau_s)\<close>, then
  \<open>v' = v + dt * (-(v - v_rest) + i') / tau_m\<close>. If \<open>v' \<ge> threshold\<close> it returns true,
  appends the neuron's current time (the number of steps it has taken times \<open>dt\<close>) to
  \<open>spike_times\<close>, sets \<open>last_spike_time\<close> to it, resets \<open>v\<close> to \<open>v_reset\<close> and records
  \<open>v_reset\<close> as the potential of the step. Otherwise it returns false and keeps \<open>v'\<close>.
\<close>

theorem step_performs_update_rule:
  assumes "tau_s n \<noteq> 0" and "tau_m n \<noteq> 0"
  shows "step dt' input_current n =
    (let i' = (i_syn n + input_current) * exp (- dt' / tau_s n);
         v' = v n + dt' * (- (v n - v_rest n) + i') / tau_m n;
         now = real (length (v_history n)) * dt'
     in if threshold n \<le> v' then
          Inr (True, n\<lparr> i_syn := i', v := v_reset n,
                         spike_times := spike_times n @ [now],
                         last_spike_time := Some now,
                         v_history := v_history n @ [v_reset n],
                         spike_history := spike_history n @ [1] \<rparr>)
        else
          Inr (False, n\<lparr> i_syn := i', v := v',
                          v_history := v_history n @ [v'],
                          spike_history := spike_history n @ [0] \<rparr>))"
  using assms unfolding step_def Let_def by (simp add: mult.commute)

theorem step_performs_update_rule_witness:
  "step 0 1 (LIF_Neuron 0 (1/2) 1 5 0 (1/4)\<lparr> v := 1, v_history := [0, 0] \<rparr>) =
     Inr (True, LIF_Neuron 0 (1/2) 1 5 0 (1/4)
        \<lparr> v := 1/4, i_syn := 1, spike_times := [0], last_spike_time := Some 0,
          v_history := [0, 0, 1/4], spike_history := [1] \<rparr>)"
  using step_performs_update_rule
    [of "LIF_Neuron 0 (1/2) 1 5 0 (1/4)\<lparr> v := 1, v_history := [0, 0] \<rparr>" 0 1]
  by (simp add: LIF_Neuron_def Let_def)

subsection \<open>Reset\<close>



subsection \<open>Readout\<close>

lemma argmax_scan_spec:
  assumes "length pre = i" and "best < i" and "pre ! best = bv"
    and "\<forall>j<i. pre ! j \<le> bv" and "\<forall>j<best. pre ! j < bv"
  shows "let r = argmax_scan xs i best bv; ys = pre @ xs in
           r < length ys \<and> (\<forall>j<length ys. ys ! j \<le> ys ! r) \<and> (\<forall>j<r. ys ! j < ys ! r)"
  using assms
proof (induction xs arbitrary: pre i best bv)
  case Nil
  then show ?case by (auto simp: Let_def)
next
  case (Cons x xs)
  show ?case
  proof (cases "bv < x")
    case True
    have "let r = argmax_scan xs (Suc i) i x; ys = (pre @ [x]) @ xs in
           r < length ys \<and> (\<forall>j<length ys. ys ! j \<le> ys ! r) \<and> (\<forall>j<r. ys ! j < ys ! r)"
    proof (rule Cons.IH)
      show "length (pre @ [x]) = Suc i" using Cons.prems by simp
      show "i < Suc i" by simp
      show "(pre @ [x]) ! i = x" using Cons.prems by (simp add: nth_append)
      show "\<forall>j<Suc i. (pre @ [x]) ! j \<le> x"
        using Cons.prems True by (auto simp: nth_append less_Suc_eq dest: order.strict_implies_order)
      show "\<forall>j<i. (pre @ [x]) ! j < x"
        using Cons.prems True by (auto simp: nth_append)
    qed
    with True show ?thesis by simp
  next
    case False
    have "let r = argmax_scan xs (Suc i) best bv; ys = (pre @ [x]) @ xs in
           r < length ys \<and> (\<forall>j<length ys. ys ! j \<le> ys ! r) \<and> (\<forall>j<r. ys ! j < ys ! r)"
    proof (rule Cons.IH)
      show "length (pre @ [x]) = Suc i" using Cons.prems by simp
      show "best < Suc i" using Cons.prems by simp
      show "(pre @ [x]) ! best = bv" using Cons.prems by (simp add: nth_append)
      show "\<forall>j<Suc i. (pre @ [x]) ! j \<le> bv"
        using Cons.prems False by (auto simp: nth_append less_Suc_eq)
      show "\<forall>j<best. (pre @ [x]) ! j < bv"
        using Cons.prems by (auto simp: nth_append)
    qed
    with False show ?thesis by simp
  qed
qed

lemma argmax_spec:
  assumes "xs \<noteq> []"
  shows "\<exists>r. argmax xs = Inr r \<and> r < length xs \<and> (\<forall>j<length xs. xs ! j \<le> xs ! r)
             \<and> (\<forall>j<r. xs ! j < xs ! r)"
proof -
  from assms obtain x rest where xs: "xs = x # rest" by (cases xs) auto
  have "let r = argmax_scan rest 1 0 x; ys = [x] @ rest in
           r < length ys \<and> (\<forall>j<length ys. ys ! j \<le> ys ! r) \<and> (\<forall>j<r. ys ! j < ys ! r)"
    by (rule argmax_scan_spec) auto
  then show ?thesis by (simp add: xs argmax_def Let_def)
qed

text \<open>
  C8. For a non-empty list of spike records \<open>get_winner\<close> returns an index whose spike
  count is the maximum, and every earlier index has a strictly smaller count: the lowest
  index among those that tie. On counts \<open>[2, 5, 5]\<close> it returns 1, on \<open>[0, 0, 0]\<close> it
  returns 0.
\<close>

theorem get_winner_first_maximum:
  "(output_spikes \<noteq> [] \<longrightarrow>
      (\<exists>r. get_winner output_spikes = Inr r \<and> r < length output_spikes
         \<and> (\<forall>j<length output_spikes. length (output_spikes ! j) \<le> length (output_spikes ! r))
         \<and> (\<forall>j<r. length (output_spikes ! j) < length (output_spikes ! r))))
   \<and> (map length output_spikes = [2, 5, 5] \<longrightarrow> get_winner output_spikes = Inr 1)
   \<and> (map length output_spikes = [0, 0, 0] \<longrightarrow> get_winner output_spikes = Inr 0)"
proof (intro conjI impI)
  assume ne: "output_spikes \<noteq> []"
  then have "map length output_spikes \<noteq> []" by simp
  from argmax_spec [OF this] show "\<exists>r. get_winner output_spikes = Inr r \<and> r < length output_spikes
         \<and> (\<forall>j<length output_spikes. length (output_spikes ! j) \<le> length (output_spikes ! r))
         \<and> (\<forall>j<r. length (output_spikes ! j) < length (output_spikes ! r))"
    by (auto simp: get_winner_def Let_def)
next
  assume "map length output_spikes = [2, 5, 5]"
  then show "get_winner output_spikes = Inr 1" by (simp add: get_winner_def argmax_def)
next
  assume "map length output_spikes = [0, 0, 0]"
  then show "get_winner output_spikes = Inr 0" by (simp add: get_winner_def argmax_def)
qed

theorem get_winner_first_maximum_witness:
  "get_winner [[1, 2], [3, 4, 5, 6, 7], [1, 3, 5, 7, 9]] = Inr 1
   \<and> get_winner [[], [], []] = Inr 0
   \<and> (\<exists>r. get_winner [[1], [2, 3], [], [4, 5]] = Inr r \<and> r < 4)"
  using get_winner_first_maximum [of "[[1, 2], [3, 4, 5, 6, 7], [1, 3, 5, 7, 9]]"]
    get_winner_first_maximum [of "[[], [], []]"]
    get_winner_first_maximum [of "[[1], [2, 3], [], [4, 5]]"]
  by auto

subsection \<open>The weight matrix accessor\<close>

lemma flat_index_bound:
  assumes "i < rows" and "j < cols"
  shows "i * cols + j < rows * (cols::nat)"
proof -
  have "i * cols + j < Suc i * cols" using assms(2) by simp
  also have "\<dots> \<le> rows * cols" using assms(1) by (intro mult_le_mono1) simp
  finally show ?thesis .
qed

lemma flat_index_div_mod:
  assumes "j < (cols::nat)"
  shows "(i * cols + j) div cols = i" and "(i * cols + j) mod cols = j"
  using assms by simp_all

lemma fill_matrix_spec:
  assumes len: "length synapses = rows * cols"
  shows "\<exists>W. fill_matrix rows cols synapses = Inr W \<and> length W = rows
           \<and> (\<forall>i<rows. length (W ! i) = cols
                 \<and> (\<forall>j<cols. W ! i ! j = w (synapses ! (i * cols + j))))"
proof -
  define inner where "inner i j W \<longleftrightarrow>
      length W = rows \<and> (\<forall>r<rows. length (W ! r) = cols)
      \<and> (\<forall>r<i. \<forall>c<cols. W ! r ! c = w (synapses ! (r * cols + c)))
      \<and> (\<forall>c<j. W ! i ! c = w (synapses ! (i * cols + c)))" for i j and W :: "real list list"
  define body where "body i = (\<lambda>j W.
             andthen (py_get synapses (i * cols + j)) (\<lambda>synapse.
               Inr (W[i := (W ! i)[j := w synapse]])))" for i
  have body_step: "\<exists>W'. body i j W = Inr W' \<and> inner i (Suc j) W'"
    if "i < rows" "j < cols" "inner i j W" for i j W
  proof -
    from that(1,2) len have k: "i * cols + j < length synapses" by (simp add: flat_index_bound)
    let ?W' = "W[i := (W ! i)[j := w (synapses ! (i * cols + j))]]"
    have "body i j W = Inr ?W'" using k by (simp add: body_def py_get_def andthen_def)
    moreover have "inner i (Suc j) ?W'"
      using that unfolding inner_def
      by (auto simp: nth_list_update less_Suc_eq)
    ultimately show ?thesis by blast
  qed
  have row_step: "\<exists>W'. for_each [0..<cols] (body i) W = Inr W' \<and> inner (Suc i) 0 W'"
    if "i < rows" "inner i 0 W" for i W
  proof -
    from for_each_upt_rule [of "inner i" W cols "body i"] that body_step
    obtain W' where "for_each [0..<cols] (body i) W = Inr W'" "inner i cols W'" by blast
    moreover from this(2) have "inner (Suc i) 0 W'"
      unfolding inner_def by (auto simp: less_Suc_eq)
    ultimately show ?thesis by blast
  qed
  have "inner 0 0 (replicate rows (replicate cols 0))" by (simp add: inner_def)
  from for_each_upt_rule [of "\<lambda>i. inner i 0" _ rows "\<lambda>i. for_each [0..<cols] (body i)", OF this]
    row_step
  obtain W where "for_each [0..<rows] (\<lambda>i. for_each [0..<cols] (body i))
        (replicate rows (replicate cols 0)) = Inr W" and "inner rows 0 W"
    by blast
  then show ?thesis unfolding fill_matrix_def body_def inner_def by auto
qed

text \<open>
  C9. On a network whose synapse lists have the sizes that the constructor gives them,
  \<open>get_weights_matrix\<close> returns for \<open>"input_hidden"\<close> a matrix of \<open>n_input\<close> rows of
  length \<open>n_hidden\<close> whose entry \<open>(i, h)\<close> is the weight of the synapse stored for the pair
  \<open>(i, h)\<close>, for \<open>"hidden_output"\<close> the matrix of \<open>n_hidden\<close> rows of length \<open>n_output\<close>
  with the weights of the hidden to output synapses, and for any other layer name it
  raises the error "Unknown layer". The accessor is a function of the network and
  returns no network: it changes nothing.
\<close>

theorem get_weights_matrix_by_layer:
  assumes "length (synapses_ih net) = n_input net * n_hidden net"
    and "length (synapses_ho net) = n_hidden net * n_output net"
  shows "(\<exists>W. get_weights_matrix net ''input_hidden'' = Inr W \<and> length W = n_input net
            \<and> (\<forall>i<n_input net. length (W ! i) = n_hidden net
                 \<and> (\<forall>h<n_hidden net. W ! i ! h = w (synapses_ih net ! (i * n_hidden net + h)))))
       \<and> (\<exists>W. get_weights_matrix net ''hidden_output'' = Inr W \<and> length W = n_hidden net
            \<and> (\<forall>h<n_hidden net. length (W ! h) = n_output net
                 \<and> (\<forall>k<n_output net. W ! h ! k = w (synapses_ho net ! (h * n_output net + k)))))
       \<and> (layer \<noteq> ''input_hidden'' \<and> layer \<noteq> ''hidden_output''
            \<longrightarrow> get_weights_matrix net layer = Inl (ValueError (''Unknown layer: '' @ layer)))"
  using fill_matrix_spec [OF assms(1)] fill_matrix_spec [OF assms(2)]
  by (simp add: get_weights_matrix_def)

theorem get_weights_matrix_by_layer_witness:
  "(\<exists>W. get_weights_matrix
       \<lparr> n_input = 1, n_hidden = 2, n_output = 1, dt = 1, stdp_enabled = True,
         input_neurons = [LIF_Neuron 0 (4/5) 20 5 0 0],
         hidden_neurons = [LIF_Neuron 0 (9/10) 20 5 0 0, LIF_Neuron 1 (9/10) 20 5 0 0],
         output_neurons = [LIF_Neuron 0 (4/5) 20 5 0 0],
         synapses_ih = [STDP_Synapse 0 0 (1/4) 0 1 (3/200) (3/200) 20 20,
                        STDP_Synapse 0 1 (3/10) 0 1 (3/200) (3/200) 20 20],
         synapses_ho = [STDP_Synapse 0 0 (1/5) 0 1 (1/50) (1/50) 20 20,
                        STDP_Synapse 1 0 (1/10) 0 1 (1/50) (1/50) 20 20] \<rparr> ''input_hidden'' = Inr W \<and> length W = 1 \<and> length (W ! 0) = 2 \<and> W ! 0 ! 1 = 3 / 10)
   \<and> (\<exists>W. get_weights_matrix
       \<lparr> n_input = 1, n_hidden = 2, n_output = 1, dt = 1, stdp_enabled = True,
         input_neurons = [LIF_Neuron 0 (4/5) 20 5 0 0],
         hidden_neurons = [LIF_Neuron 0 (9/10) 20 5 0 0, LIF_Neuron 1 (9/10) 20 5 0 0],
         output_neurons = [LIF_Neuron 0 (4/5) 20 5 0 0],
         synapses_ih = [STDP_Synapse 0 0 (1/4) 0 1 (3/200) (3/200) 20 20,
                        STDP_Synapse 0 1 (3/10) 0 1 (3/200) (3/200) 20 20],
         synapses_ho = [STDP_Synapse 0 0 (1/5) 0 1 (1/50) (1/50) 20 20,
                        STDP_Synapse 1 0 (1/10) 0 1 (1/50) (1/50) 20 20] \<rparr> ''hidden_output'' = Inr W \<and> length W = 2 \<and> W ! 1 ! 0 = 1 / 10)
   \<and> get_weights_matrix
       \<lparr> n_input = 1, n_hidden = 2, n_output = 1, dt = 1, stdp_enabled = True,
         input_neurons = [LIF_Neuron 0 (4/5) 20 5 0 0],
         hidden_neurons = [LIF_Neuron 0 (9/10) 20 5 0 0, LIF_Neuron 1 (9/10) 20 5 0 0],
         output_neurons = [LIF_Neuron 0 (4/5) 20 5 0 0],
         synapses_ih = [STDP_Synapse 0 0 (1/4) 0 1 (3/200) (3/200) 20 20,
                        STDP_Synapse 0 1 (3/10) 0 1 (3/200) (3/200) 20 20],
         synapses_ho = [STDP_Synapse 0 0 (1/5) 0 1 (1/50) (1/50) 20 20,
                        STDP_Synapse 1 0 (1/10) 0 1 (1/50) (1/50) 20 20] \<rparr> ''output'' = Inl (ValueError ''Unknown layer: output'')"
proof -
  let ?net = "\<lparr> n_input = 1, n_hidden = 2, n_output = 1, dt = 1, stdp_enabled = True,
         input_neurons = [LIF_Neuron 0 (4/5) 20 5 0 0],
         hidden_neurons = [LIF_Neuron 0 (9/10) 20 5 0 0, LIF_Neuron 1 (9/10) 20 5 0 0],
         output_neurons = [LIF_Neuron 0 (4/5) 20 5 0 0],
         synapses_ih = [STDP_Synapse 0 0 (1/4) 0 1 (3/200) (3/200) 20 20,
                        STDP_Synapse 0 1 (3/10) 0 1 (3/200) (3/200) 20 20],
         synapses_ho = [STDP_Synapse 0 0 (1/5) 0 1 (1/50) (1/50) 20 20,
                        STDP_Synapse 1 0 (1/10) 0 1 (1/50) (1/50) 20 20] \<rparr>"
  have h: "length (synapses_ih ?net) = n_input ?net * n_hidden ?net"
    "length (synapses_ho ?net) = n_hidden ?net * n_output ?net"
    by simp_all
  note T = get_weights_matrix_by_layer [OF h, of "''output''"]
  from T obtain W1 where W1: "get_weights_matrix ?net ''input_hidden'' = Inr W1"
    "length W1 = n_input ?net"
    "\<forall>i<n_input ?net. length (W1 ! i) = n_hidden ?net
        \<and> (\<forall>h<n_hidden ?net. W1 ! i ! h = w (synapses_ih ?net ! (i * n_hidden ?net + h)))"
    by blast
  from T obtain W2 where W2: "get_weights_matrix ?net ''hidden_output'' = Inr W2"
    "length W2 = n_hidden ?net"
    "\<forall>h<n_hidden ?net. length (W2 ! h) = n_output ?net
        \<and> (\<forall>k<n_output ?net. W2 ! h ! k = w (synapses_ho ?net ! (h * n_output ?net + k)))"
    by blast
  from T have U: "get_weights_matrix ?net ''output'' = Inl (ValueError ''Unknown layer: output'')"
    by simp
  from W1(3) have "length (W1 ! 0) = 2 \<and> W1 ! 0 ! 1 = 3 / 10" by (simp add: STDP_Synapse_def)
  moreover from W2(3) have "W2 ! 1 ! 0 = 1 / 10" by (simp add: STDP_Synapse_def)
  ultimately show ?thesis using W1(1,2) W2(1,2) U by simp
qed

end
